theory Spec2Isabelle
  imports Main
begin

section \<open>JavaScript values\<close>

text \<open>
  The repository is TypeScript, but the checks the claims are about (\<open>!id\<close>,
  \<open>typeof id !== 'string'\<close>, \<open>!dbUser\<close>, \<open>error.name === 'ApplicationError'\<close>)
  are decided on the values of the running program, so rows, entities, request
  parameters and response bodies are untyped values here.

  \<open>jsval\<close> are the values a column, a property of an entity or a property of a
  body holds: \<open>undefined\<close> (also: no such property), \<open>null\<close>, booleans, numbers,
  strings and Dates. Numbers are the integers (the only number literals of the
  sources are status codes); a Date carries its time value, where \<open>None\<close> is the
  Invalid Date. \<open>jsany\<close> adds the plain object, the list of its own properties
  in insertion order, with distinct names. Objects are flat: the users table has
  scalar columns, and no object of the sources nests another one.
\<close>

datatype jsval =
    JUndefined
  | JNull
  | JBool bool
  | JNum int
  | JStr string
  | JDate "int option"

datatype jsany =
    Val jsval
  | Obj "(string \<times> jsval) list"

text \<open>\<open>!v\<close> is \<open>\<not> truthy v\<close>.\<close>

fun truthy :: "jsany \<Rightarrow> bool" where
  "truthy (Val JUndefined) = False"
| "truthy (Val JNull) = False"
| "truthy (Val (JBool b)) = b"
| "truthy (Val (JNum n)) = (n \<noteq> 0)"
| "truthy (Val (JStr s)) = (s \<noteq> [])"
| "truthy (Val (JDate t)) = True"
| "truthy (Obj fs) = True"

fun typeof :: "jsany \<Rightarrow> string" where
  "typeof (Val JUndefined) = ''undefined''"
| "typeof (Val JNull) = ''object''"
| "typeof (Val (JBool b)) = ''boolean''"
| "typeof (Val (JNum n)) = ''number''"
| "typeof (Val (JStr s)) = ''string''"
| "typeof (Val (JDate t)) = ''object''"
| "typeof (Obj fs) = ''object''"

text \<open>
  \<open>v.k\<close> for a value that is neither \<open>null\<close> nor \<open>undefined\<close> (the sources read
  properties only behind a truthiness check), with \<open>k\<close> one of the column names
  the sources read: an own property of an object, and \<open>undefined\<close> when the object
  has no such property or the value is a primitive or a Date.
\<close>

fun getProp :: "jsany \<Rightarrow> string \<Rightarrow> jsval" where
  "getProp (Obj fs) k = (case map_of fs k of Some v \<Rightarrow> v | None \<Rightarrow> JUndefined)"
| "getProp (Val v) k = JUndefined"

fun ownKeys :: "jsany \<Rightarrow> string list" where
  "ownKeys (Obj fs) = map fst fs"
| "ownKeys (Val v) = []"

text \<open>\<open>id.length\<close>, read by the service only once \<open>typeof id\<close> is \<open>'string'\<close>.\<close>

fun str_length :: "jsany \<Rightarrow> nat" where
  "str_length (Val (JStr s)) = length s"
| "str_length v = 0"

text \<open>
  \<open>new Date(v)\<close>. \<open>Date.parse\<close> belongs to the engine and is the parameter \<open>parse\<close>
  (\<open>None\<close> for a string that is no date). \<open>undefined\<close> gives the Invalid Date,
  \<open>null\<close> and booleans go through \<open>ToNumber\<close>, a number is clipped to the range of
  time values, a Date is copied.
\<close>

definition timeClip :: "int \<Rightarrow> int option" where
  "timeClip n = (if \<bar>n\<bar> > 8640000000000000 then None else Some n)"

fun newDate :: "(string \<Rightarrow> int option) \<Rightarrow> jsval \<Rightarrow> jsval" where
  "newDate parse JUndefined = JDate None"
| "newDate parse JNull = JDate (Some 0)"
| "newDate parse (JBool b) = JDate (Some (if b then 1 else 0))"
| "newDate parse (JNum n) = JDate (timeClip n)"
| "newDate parse (JStr s) = JDate (parse s)"
| "newDate parse (JDate t) = JDate t"

section \<open>Errors\<close>

text \<open>
  \<open>PostgrestError\<close> of the store client: the sources read its \<open>message\<close> and its
  \<open>code\<close>.
\<close>

record pgerror =
  pg_message :: string
  pg_code :: string

text \<open>
  A thrown \<open>Error\<close>. The handlers tell the classes apart by \<open>error.name\<close> and read
  \<open>error.code\<close> and \<open>error.message\<close>; \<open>code\<close> is \<open>undefined\<close> on an error that has
  none.
\<close>

record js_error =
  err_name :: string
  err_message :: string
  err_code :: jsval
  err_original :: "pgerror option"

text \<open>\<open>class ApplicationError\<close> (UserService.ts): \<open>name\<close> is the constructor's name.\<close>

definition ApplicationError :: "string \<Rightarrow> int \<Rightarrow> js_error" where
  "ApplicationError msg c =
     \<lparr>err_name = ''ApplicationError'', err_message = msg, err_code = JNum c,
      err_original = None\<rparr>"

text \<open>\<open>class DatabaseError\<close> (SupabaseUserRepository.ts).\<close>

definition DatabaseError :: "string \<Rightarrow> pgerror option \<Rightarrow> js_error" where
  "DatabaseError msg orig =
     \<lparr>err_name = ''DatabaseError'', err_message = msg, err_code = JUndefined,
      err_original = orig\<rparr>"

text \<open>\<open>new Error(msg)\<close>.\<close>

definition Error :: "string \<Rightarrow> js_error" where
  "Error msg =
     \<lparr>err_name = ''Error'', err_message = msg, err_code = JUndefined,
      err_original = None\<rparr>"

section \<open>The store client\<close>

text \<open>
  The Supabase client is an external collaborator. The sources use three query
  shapes, each awaited to a \<open>{data, error}\<close> pair: the client reports a failure in
  \<open>error\<close> and does not throw. The client is a parameter of the model: a function
  from the queries issued so far and the query issued now to the reply, which
  covers every store whose replies are determined by its history. The state that
  is threaded through the program is the list of queries sent to the store, so
  that "the repository was not contacted" and "no insert was issued" are
  statements about that list. The calls to \<open>console\<close> and to the request
  logger write to the log and nothing else; they are left out.
\<close>

datatype store_call =
    SelectEq string string string
  | InsertRow string jsany
  | HeadCount string

record response =
  resp_data :: jsany
  resp_error :: "pgerror option"

type_synonym trace = "store_call list"

type_synonym supabase = "trace \<Rightarrow> store_call \<Rightarrow> response"

definition runQuery :: "supabase \<Rightarrow> store_call \<Rightarrow> trace \<Rightarrow> response \<times> trace" where
  "runQuery sb q tr = (sb tr q, tr @ [q])"

section \<open>SupabaseUserRepository\<close>

definition tableName :: string where
  "tableName = ''users''"

text \<open>
  \<open>mapToDomain\<close>: \<open>null\<close> (here \<open>None\<close>) for a falsy row, otherwise the object literal
  of the source, property by property. There is no \<open>throw\<close> in it.
\<close>

definition mapToDomain :: "(string \<Rightarrow> int option) \<Rightarrow> jsany \<Rightarrow> jsany option" where
  "mapToDomain parse dbUser =
     (if \<not> truthy dbUser then None
      else Some (Obj
        [(''id'', getProp dbUser ''id''),
         (''email'', getProp dbUser ''email''),
         (''username'', getProp dbUser ''username''),
         (''password'', getProp dbUser ''password''),
         (''updated_at'', newDate parse (getProp dbUser ''updated_at'')),
         (''created_at'', newDate parse (getProp dbUser ''created_at''))]))"

text \<open>\<open>handleError\<close>: throws a \<open>DatabaseError\<close> when the store reported an error.\<close>

definition handleError :: "pgerror option \<Rightarrow> string \<Rightarrow> js_error + unit" where
  "handleError error context' =
     (case error of
        Some e \<Rightarrow> Inl (DatabaseError (''Database operation failed: '' @ context') (Some e))
      | None \<Rightarrow> Inr ())"

definition findById ::
  "(string \<Rightarrow> int option) \<Rightarrow> supabase \<Rightarrow> string \<Rightarrow> trace \<Rightarrow> (js_error + jsany option) \<times> trace" where
  "findById parse sb ident tr =
     (let (r, tr') = runQuery sb (SelectEq tableName ''id'' ident) tr
      in case handleError (resp_error r) (''findById '' @ ident) of
           Inl e \<Rightarrow> (Inl e, tr')
         | Inr u \<Rightarrow> (Inr (mapToDomain parse (resp_data r)), tr'))"

definition findByEmail ::
  "(string \<Rightarrow> int option) \<Rightarrow> supabase \<Rightarrow> string \<Rightarrow> trace \<Rightarrow> (js_error + jsany option) \<times> trace" where
  "findByEmail parse sb email tr =
     (let (r, tr') = runQuery sb (SelectEq tableName ''email'' email) tr
      in case handleError (resp_error r) (''findByEmail '' @ email) of
           Inl e \<Rightarrow> (Inl e, tr')
         | Inr u \<Rightarrow> (Inr (mapToDomain parse (resp_data r)), tr'))"

text \<open>
  \<open>CreateUserDTO\<close>. The POST route's body schema requires \<open>email\<close> to be a string
  and says nothing of the other two properties, which are passed on as they are.
\<close>

record createUserDTO =
  dto_email :: string
  dto_username :: jsval
  dto_password :: jsval

text \<open>The object literal \<open>dbData\<close> of \<open>create\<close>.\<close>

definition dbData :: "createUserDTO \<Rightarrow> jsany" where
  "dbData userData =
     Obj [(''email'', JStr (dto_email userData)),
          (''username'', dto_username userData),
          (''password'', dto_password userData)]"

text \<open>
  \<open>create\<close>: \<open>guarded\<close> is the block under \<open>if (error || !data)\<close>, with its three
  throws in their order; \<open>error?.code === '23505'\<close> is false when there is no
  error.
\<close>

definition create ::
  "(string \<Rightarrow> int option) \<Rightarrow> supabase \<Rightarrow> createUserDTO \<Rightarrow> trace \<Rightarrow> (js_error + jsany) \<times> trace" where
  "create parse sb userData tr =
     (let (r, tr') = runQuery sb (InsertRow tableName (dbData userData)) tr;
          guarded =
            (if resp_error r \<noteq> None \<or> \<not> truthy (resp_data r) then
               (if map_option pg_code (resp_error r) = Some ''23505'' then
                  Inl (DatabaseError
                        ''Unique constraint violation (e.g., email already exists)''
                        (resp_error r))
                else
                  (case handleError (resp_error r)
                          (''create user with email '' @ dto_email userData) of
                     Inl e \<Rightarrow> Inl e
                   | Inr u \<Rightarrow>
                       (if \<not> truthy (resp_data r) then
                          Inl (DatabaseError
                                ''User creation failed: No data returned from database''
                                None)
                        else Inr ())))
             else Inr ())
      in case guarded of
           Inl e \<Rightarrow> (Inl e, tr')
         | Inr u \<Rightarrow>
             (case mapToDomain parse (resp_data r) of
                None \<Rightarrow>
                  (Inl (DatabaseError
                          ''Failed to map created user data to domain object.'' None), tr')
              | Some mappedUser \<Rightarrow> (Inr mappedUser, tr')))"

section \<open>UserService\<close>

text \<open>The string behind a value whose \<open>typeof\<close> is \<open>'string'\<close>.\<close>

fun str_of :: "jsany \<Rightarrow> string" where
  "str_of (Val (JStr s)) = s"
| "str_of v = []"

text \<open>
  \<open>getUserById\<close>: the guard of the source, with its three disjuncts in their
  order, and then the lookup, which is not inside any \<open>try\<close>: what \<open>findById\<close>
  throws leaves the service as it is. \<open>null\<close> is \<open>None\<close>.
\<close>

definition UserService_getUserById ::
  "(string \<Rightarrow> int option) \<Rightarrow> supabase \<Rightarrow> jsany \<Rightarrow> trace \<Rightarrow> (js_error + jsany option) \<times> trace" where
  "UserService_getUserById parse sb ident tr =
     (if \<not> truthy ident \<or> typeof ident \<noteq> ''string'' \<or> str_length ident < 1 then
        (Inl (ApplicationError ''Invalid user ID format provided.'' 400), tr)
      else
        (let (r, tr') = findById parse sb (str_of ident) tr
         in case r of
              Inl e \<Rightarrow> (Inl e, tr')
            | Inr None \<Rightarrow> (Inr None, tr')
            | Inr (Some user) \<Rightarrow> (Inr (Some user), tr')))"

text \<open>
  \<open>createUser\<close>: the lookup by email is outside the \<open>try\<close>, the insert is inside
  it, and the \<open>catch\<close> replaces whatever was thrown.
\<close>

definition UserService_createUser ::
  "(string \<Rightarrow> int option) \<Rightarrow> supabase \<Rightarrow> createUserDTO \<Rightarrow> trace \<Rightarrow> (js_error + jsany) \<times> trace" where
  "UserService_createUser parse sb userData tr =
     (let (found, tr1) = findByEmail parse sb (dto_email userData) tr
      in case found of
           Inl e \<Rightarrow> (Inl e, tr1)
         | Inr (Some existingUser) \<Rightarrow>
             (Inl (ApplicationError ''User with this email already exists.'' 409), tr1)
         | Inr None \<Rightarrow>
             (let (created, tr2) = create parse sb userData tr1
              in case created of
                   Inl dbError \<Rightarrow>
                     (Inl (ApplicationError
                             ''Failed to create user due to a database issue.'' 500), tr2)
                 | Inr newUser \<Rightarrow> (Inr newUser, tr2)))"

section \<open>UserHandler\<close>

text \<open>
  What a handler hands to the router: the status code and the object given to
  \<open>send\<close>. For the user routes the model ends there; for the health route the
  writing of that object through the route's response schema is modelled below.
\<close>

record reply =
  rep_status :: nat
  rep_body :: jsany

definition send :: "nat \<Rightarrow> jsany \<Rightarrow> reply" where
  "send c b = \<lparr>rep_status = c, rep_body = b\<rparr>"

text \<open>
  Modelled from the spec: the reply helpers \<open>notFound\<close>, \<open>badRequest\<close>, \<open>conflict\<close>
  and \<open>internalServerError\<close> come from the plugin @fastify/sensible, whose code is
  not among the sources (only their declaration and the error schemas of
  sensible.ts are). The spec gives the body of every non-2xx reply as
  \<open>{statusCode, error, message}\<close>, and the schemas of sensible.ts fix the status
  and the \<open>error\<close> text of each helper.
\<close>

definition httpError :: "nat \<Rightarrow> string \<Rightarrow> string \<Rightarrow> reply" where
  "httpError c label msg =
     send c (Obj [(''statusCode'', JNum (int c)), (''error'', JStr label),
                  (''message'', JStr msg)])"

definition notFound :: "string \<Rightarrow> reply" where
  "notFound msg = httpError 404 ''Not Found'' msg"

definition badRequest :: "string \<Rightarrow> reply" where
  "badRequest msg = httpError 400 ''Bad Request'' msg"

definition conflict :: "string \<Rightarrow> reply" where
  "conflict msg = httpError 409 ''Conflict'' msg"

definition internalServerError :: "string \<Rightarrow> reply" where
  "internalServerError msg = httpError 500 ''Internal Server Error'' msg"

definition mapUserToResponse :: "(string \<Rightarrow> int option) \<Rightarrow> jsany \<Rightarrow> jsany" where
  "mapUserToResponse parse user =
     Obj [(''id'', getProp user ''id''),
          (''email'', getProp user ''email''),
          (''created_at'', newDate parse (getProp user ''created_at''))]"

text \<open>
  The \<open>catch\<close> block of \<open>createUser\<close>: the \<open>switch\<close> on \<open>error.code\<close> compares with
  \<open>===\<close>, and its \<open>default\<close> falls out of the \<open>if\<close> to the two tests below it.
\<close>

definition UserHandler_createUser_catch :: "js_error \<Rightarrow> reply" where
  "UserHandler_createUser_catch error =
     (if err_name error = ''ApplicationError'' \<and> err_code error = JNum 409 then
        conflict (err_message error)
      else if err_name error = ''ApplicationError'' \<and> err_code error = JNum 400 then
        badRequest (err_message error)
      else if err_name error = ''DatabaseError'' then
        internalServerError ''A database error occurred while creating the user.''
      else
        internalServerError ''An unexpected error occurred while creating the user.'')"

definition UserHandler_createUser ::
  "(string \<Rightarrow> int option) \<Rightarrow> supabase \<Rightarrow> createUserDTO \<Rightarrow> trace \<Rightarrow> reply \<times> trace" where
  "UserHandler_createUser parse sb body tr =
     (let (r, tr') = UserService_createUser parse sb body tr
      in case r of
           Inr newUserDomain \<Rightarrow> (send 201 (mapUserToResponse parse newUserDomain), tr')
         | Inl error \<Rightarrow> (UserHandler_createUser_catch error, tr'))"

definition UserHandler_getUserById_catch :: "js_error \<Rightarrow> reply" where
  "UserHandler_getUserById_catch error =
     (if err_name error = ''ApplicationError'' \<and> err_code error = JNum 400 then
        badRequest (err_message error)
      else if err_name error = ''DatabaseError'' then
        internalServerError ''A database error occurred while fetching the user.''
      else
        internalServerError ''An unexpected error occurred while fetching the user.'')"

text \<open>
  \<open>getUserById\<close>: \<open>request.params.userId\<close> is the path segment, a string; the GET
  route registers no schema for it.
\<close>

definition UserHandler_getUserById ::
  "(string \<Rightarrow> int option) \<Rightarrow> supabase \<Rightarrow> string \<Rightarrow> trace \<Rightarrow> reply \<times> trace" where
  "UserHandler_getUserById parse sb userId tr =
     (let (r, tr') = UserService_getUserById parse sb (Val (JStr userId)) tr
      in case r of
           Inr None \<Rightarrow> (notFound (''User with ID '' @ userId @ '' not found.''), tr')
         | Inr (Some userDomain) \<Rightarrow> (send 200 (mapUserToResponse parse userDomain), tr')
         | Inl error \<Rightarrow> (UserHandler_getUserById_catch error, tr'))"

section \<open>The health route\<close>

text \<open>
  The handler of \<open>GET /health\<close> in app.ts. \<open>now\<close> is the clock reading
  \<open>new Date().toISOString()\<close> of the request. The \<open>try\<close> block throws an \<open>Error\<close>
  when the store reports one, and the \<open>catch\<close> block builds the 503 body from
  what it caught.
\<close>

definition health_try :: "supabase \<Rightarrow> string \<Rightarrow> trace \<Rightarrow> (js_error + reply) \<times> trace" where
  "health_try sb now tr =
     (let (r, tr') = runQuery sb (HeadCount ''users'') tr
      in case resp_error r of
           Some error \<Rightarrow>
             (Inl (Error (''Supabase reachability check failed: '' @ pg_message error)), tr')
         | None \<Rightarrow>
             (Inr (send 200 (Obj [(''status'', JStr ''ok''), (''timestamp'', JStr now)])), tr'))"

definition health_catch :: "js_error \<Rightarrow> string \<Rightarrow> reply" where
  "health_catch err now =
     send 503 (Obj [(''status'', JStr ''error''),
                    (''message'', JStr ''Service unavailable''),
                    (''error'', JStr (err_message err)),
                    (''timestamp'', JStr now)])"

definition health :: "supabase \<Rightarrow> string \<Rightarrow> trace \<Rightarrow> reply \<times> trace" where
  "health sb now tr =
     (case health_try sb now tr of
        (Inl err, tr') \<Rightarrow> (health_catch err now, tr')
      | (Inr rep, tr') \<Rightarrow> (rep, tr'))"

text \<open>
  Modelled from the spec: the router that "serializes success/error bodies" by
  the response schema registered for the status code is not among the sources.
  For an object schema that lists its properties it writes those properties, in
  the schema's order, when the object has them, and no other property; a reply
  whose status has no registered schema is written as it is. The two schemas
  below are those of the \<open>/health\<close> route in app.ts (status 200 and status 503).
\<close>

definition serializeBySchema :: "string list \<Rightarrow> jsany \<Rightarrow> jsany" where
  "serializeBySchema props body =
     (case body of
        Obj fs \<Rightarrow>
          Obj (concat (map (\<lambda>k. case map_of fs k of
                                   None \<Rightarrow> []
                                 | Some v \<Rightarrow> (if v = JUndefined then [] else [(k, v)]))
                           props))
      | Val v \<Rightarrow> Val v)"

definition healthResponseSchema :: "nat \<Rightarrow> string list option" where
  "healthResponseSchema c =
     (if c = 200 then Some [''status'', ''timestamp'']
      else if c = 503 then Some [''status'', ''message'', ''timestamp'']
      else None)"

text \<open>The route: the handler's reply, written through the schema of its status.\<close>

definition health_route :: "supabase \<Rightarrow> string \<Rightarrow> trace \<Rightarrow> reply \<times> trace" where
  "health_route sb now tr =
     (let (rep, tr') = health sb now tr
      in case healthResponseSchema (rep_status rep) of
           Some props \<Rightarrow> (rep\<lparr>rep_body := serializeBySchema props (rep_body rep)\<rparr>, tr')
         | None \<Rightarrow> (rep, tr'))"

section \<open>Traces and example stores\<close>

text \<open>The insert queries of a trace.\<close>

fun isInsert :: "store_call \<Rightarrow> bool" where
  "isInsert (InsertRow t row) = True"
| "isInsert q = False"

text \<open>
  Concrete parameters on which the theorems below are instantiated: a date
  parser that knows one timestamp, a stored row and the request that creates it,
  and six stores. \<open>store_down\<close> is unreachable; \<open>store_empty\<close> holds no row and
  answers an insert with the stored row; \<open>store_alice\<close> holds that row and
  refuses a second one; \<open>store_race\<close> finds no row at the lookup and refuses the
  insert all the same, as when another request inserted the same email in
  between; \<open>store_silent\<close> answers every query with neither data nor error;
  \<open>store_malformed\<close> answers with a row that has an \<open>id\<close> and nothing else.
\<close>

definition isoParse :: "string \<Rightarrow> int option" where
  "isoParse s = (if s = ''1970-01-01T00:00:00.000Z'' then Some 0 else None)"

definition aliceRow :: jsany where
  "aliceRow =
     Obj [(''id'', JStr ''u1''), (''email'', JStr ''a@b.com''),
          (''username'', JStr ''alice''), (''password'', JStr ''secret12''),
          (''created_at'', JStr ''1970-01-01T00:00:00.000Z''),
          (''updated_at'', JStr ''1970-01-01T00:00:00.000Z'')]"

definition aliceUser :: jsany where
  "aliceUser =
     Obj [(''id'', JStr ''u1''), (''email'', JStr ''a@b.com''),
          (''username'', JStr ''alice''), (''password'', JStr ''secret12''),
          (''updated_at'', JDate (Some 0)), (''created_at'', JDate (Some 0))]"

definition aliceDTO :: createUserDTO where
  "aliceDTO =
     \<lparr>dto_email = ''a@b.com'', dto_username = JStr ''alice'',
      dto_password = JStr ''secret12''\<rparr>"

definition duplicateKey :: pgerror where
  "duplicateKey = \<lparr>pg_message = ''duplicate key value'', pg_code = ''23505''\<rparr>"

definition fetchFailed :: pgerror where
  "fetchFailed = \<lparr>pg_message = ''fetch failed'', pg_code = []\<rparr>"

definition store_down :: supabase where
  "store_down tr q = \<lparr>resp_data = Val JNull, resp_error = Some fetchFailed\<rparr>"

definition store_silent :: supabase where
  "store_silent tr q = \<lparr>resp_data = Val JNull, resp_error = None\<rparr>"

definition store_malformed :: supabase where
  "store_malformed tr q = \<lparr>resp_data = Obj [(''id'', JStr ''u1'')], resp_error = None\<rparr>"

definition store_empty :: supabase where
  "store_empty tr q =
     (case q of
        InsertRow t row \<Rightarrow> \<lparr>resp_data = aliceRow, resp_error = None\<rparr>
      | SelectEq t c v \<Rightarrow> \<lparr>resp_data = Val JNull, resp_error = None\<rparr>
      | HeadCount t \<Rightarrow> \<lparr>resp_data = Val JNull, resp_error = None\<rparr>)"

definition store_race :: supabase where
  "store_race tr q =
     (case q of
        InsertRow t row \<Rightarrow> \<lparr>resp_data = Val JNull, resp_error = Some duplicateKey\<rparr>
      | SelectEq t c v \<Rightarrow> \<lparr>resp_data = Val JNull, resp_error = None\<rparr>
      | HeadCount t \<Rightarrow> \<lparr>resp_data = Val JNull, resp_error = None\<rparr>)"

definition store_alice :: supabase where
  "store_alice tr q =
     (case q of
        InsertRow t row \<Rightarrow> \<lparr>resp_data = Val JNull, resp_error = Some duplicateKey\<rparr>
      | SelectEq t c v \<Rightarrow>
          (if (c = ''email'' \<and> v = ''a@b.com'') \<or> (c = ''id'' \<and> v = ''u1'')
           then \<lparr>resp_data = aliceRow, resp_error = None\<rparr>
           else \<lparr>resp_data = Val JNull, resp_error = None\<rparr>)
      | HeadCount t \<Rightarrow> \<lparr>resp_data = Val JNull, resp_error = None\<rparr>)"

section \<open>Facts about the repository, the service and the replies\<close>

lemma DatabaseError_sel [simp]:
  "err_name (DatabaseError m orig) = ''DatabaseError''"
  "err_message (DatabaseError m orig) = m"
  "err_code (DatabaseError m orig) = JUndefined"
  "err_original (DatabaseError m orig) = orig"
  by (simp_all add: DatabaseError_def)

lemma ApplicationError_sel [simp]:
  "err_name (ApplicationError m c) = ''ApplicationError''"
  "err_message (ApplicationError m c) = m"
  "err_code (ApplicationError m c) = JNum c"
  "err_original (ApplicationError m c) = None"
  by (simp_all add: ApplicationError_def)

lemma reply_status [simp]:
  "rep_status (send c b) = c"
  "rep_status (notFound m) = 404"
  "rep_status (badRequest m) = 400"
  "rep_status (conflict m) = 409"
  "rep_status (internalServerError m) = 500"
  by (simp_all add: send_def notFound_def badRequest_def conflict_def
        internalServerError_def httpError_def)

lemma reply_message [simp]:
  "getProp (rep_body (notFound m)) ''message'' = JStr m"
  "getProp (rep_body (badRequest m)) ''message'' = JStr m"
  "getProp (rep_body (conflict m)) ''message'' = JStr m"
  "getProp (rep_body (internalServerError m)) ''message'' = JStr m"
  by (simp_all add: send_def notFound_def badRequest_def conflict_def
        internalServerError_def httpError_def)

text \<open>Each repository method sends one query and classifies the reply.\<close>

lemma findById_result:
  "findById parse sb s tr =
     ((case resp_error (sb tr (SelectEq tableName ''id'' s)) of
         Some e \<Rightarrow> Inl (DatabaseError (''Database operation failed: findById '' @ s) (Some e))
       | None \<Rightarrow> Inr (mapToDomain parse (resp_data (sb tr (SelectEq tableName ''id'' s))))),
      tr @ [SelectEq tableName ''id'' s])"
  by (simp add: findById_def runQuery_def handleError_def split: option.splits)

lemma findByEmail_result:
  "findByEmail parse sb s tr =
     ((case resp_error (sb tr (SelectEq tableName ''email'' s)) of
         Some e \<Rightarrow> Inl (DatabaseError (''Database operation failed: findByEmail '' @ s) (Some e))
       | None \<Rightarrow> Inr (mapToDomain parse (resp_data (sb tr (SelectEq tableName ''email'' s))))),
      tr @ [SelectEq tableName ''email'' s])"
  by (simp add: findByEmail_def runQuery_def handleError_def split: option.splits)

text \<open>
  The last \<open>throw\<close> of \<open>create\<close> is dead code: a reply that passed the guard has
  truthy data, which \<open>mapToDomain\<close> never maps to \<open>null\<close>.
\<close>

lemma create_result:
  "create parse sb d tr =
     ((case resp_error (sb tr (InsertRow tableName (dbData d))) of
         Some e \<Rightarrow>
           (if pg_code e = ''23505''
            then Inl (DatabaseError
                       ''Unique constraint violation (e.g., email already exists)'' (Some e))
            else Inl (DatabaseError
                       (''Database operation failed: create user with email '' @ dto_email d)
                       (Some e)))
       | None \<Rightarrow>
           (case mapToDomain parse (resp_data (sb tr (InsertRow tableName (dbData d)))) of
              None \<Rightarrow> Inl (DatabaseError
                             ''User creation failed: No data returned from database'' None)
            | Some u \<Rightarrow> Inr u)),
      tr @ [InsertRow tableName (dbData d)])"
proof (cases "resp_error (sb tr (InsertRow tableName (dbData d)))")
  case None
  then show ?thesis
    by (cases "truthy (resp_data (sb tr (InsertRow tableName (dbData d))))")
       (simp_all add: create_def runQuery_def handleError_def mapToDomain_def)
next
  case (Some e)
  then show ?thesis
    by (simp add: create_def runQuery_def handleError_def)
qed

text \<open>The guard of \<open>getUserById\<close> passes the non-empty strings and nothing else.\<close>

lemma getUserById_guard_iff:
  "(\<not> truthy ident \<or> typeof ident \<noteq> ''string'' \<or> str_length ident < 1) \<longleftrightarrow>
   (\<forall>s. ident = Val (JStr s) \<longrightarrow> s = [])"
proof (cases ident)
  case (Val v)
  then show ?thesis by (cases v) auto
next
  case (Obj fs)
  then show ?thesis by simp
qed

lemma getUserById_valid:
  "s \<noteq> [] \<Longrightarrow> UserService_getUserById parse sb (Val (JStr s)) tr = findById parse sb s tr"
  by (simp add: UserService_getUserById_def findById_result split: option.splits sum.splits)

lemma createUser_result:
  "UserService_createUser parse sb d tr =
     (case fst (findByEmail parse sb (dto_email d) tr) of
        Inl e \<Rightarrow> (Inl e, tr @ [SelectEq tableName ''email'' (dto_email d)])
      | Inr (Some existingUser) \<Rightarrow>
          (Inl (ApplicationError ''User with this email already exists.'' 409),
           tr @ [SelectEq tableName ''email'' (dto_email d)])
      | Inr None \<Rightarrow>
          (case fst (create parse sb d (tr @ [SelectEq tableName ''email'' (dto_email d)])) of
             Inl dbError \<Rightarrow>
               (Inl (ApplicationError ''Failed to create user due to a database issue.'' 500),
                tr @ [SelectEq tableName ''email'' (dto_email d), InsertRow tableName (dbData d)])
           | Inr newUser \<Rightarrow>
               (Inr newUser,
                tr @ [SelectEq tableName ''email'' (dto_email d), InsertRow tableName (dbData d)])))"
  by (simp add: UserService_createUser_def findByEmail_result create_result
        split: option.splits sum.splits)

lemma handler_createUser_result:
  "UserHandler_createUser parse sb d tr =
     ((case fst (UserService_createUser parse sb d tr) of
         Inr u \<Rightarrow> send 201 (mapUserToResponse parse u)
       | Inl e \<Rightarrow> UserHandler_createUser_catch e),
      snd (UserService_createUser parse sb d tr))"
  by (simp add: UserHandler_createUser_def split: prod.splits sum.splits)

lemma handler_getUserById_result:
  "UserHandler_getUserById parse sb s tr =
     ((case fst (UserService_getUserById parse sb (Val (JStr s)) tr) of
         Inr None \<Rightarrow> notFound (''User with ID '' @ s @ '' not found.'')
       | Inr (Some u) \<Rightarrow> send 200 (mapUserToResponse parse u)
       | Inl e \<Rightarrow> UserHandler_getUserById_catch e),
      snd (UserService_getUserById parse sb (Val (JStr s)) tr))"
  by (simp add: UserHandler_getUserById_def split: prod.splits sum.splits option.splits)

text \<open>The example stores, query by query.\<close>

lemma mapToDomain_aliceRow: "mapToDomain isoParse aliceRow = Some aliceUser"
  by (simp add: mapToDomain_def aliceRow_def aliceUser_def isoParse_def)

lemma mapToDomain_JNull: "mapToDomain parse (Val JNull) = None"
  by (simp add: mapToDomain_def)

section \<open>The claims\<close>

subsection \<open>Storage errors at the service boundary\<close>

text \<open>
  Claim C1. A \<open>DatabaseError\<close> raised in the repository either is replaced by an
  \<open>ApplicationError\<close> before it leaves the service, or reaches a handler that
  tests \<open>error.name === 'DatabaseError'\<close> and answers 500 with a fixed message.
  Every error that leaves \<open>createUser\<close> is an \<open>ApplicationError\<close> with code 409 or
  500, or the \<open>DatabaseError\<close> of the lookup by email, which the handler answers
  with its fixed database message. Every error that leaves \<open>getUserById\<close> is the
  \<open>ApplicationError\<close> with code 400, or the \<open>DatabaseError\<close> of \<open>findById\<close>, which
  the handler answers likewise. What \<open>create\<close> throws is the one storage error the
  service itself replaces, by an \<open>ApplicationError\<close> with code 500.
\<close>

theorem storage_error_reclassified_or_special_cased:
  "(\<forall>e. fst (UserService_createUser parse sb d tr) = Inl e \<longrightarrow>
        (err_name e = ''ApplicationError'' \<and> (err_code e = JNum 409 \<or> err_code e = JNum 500))
      \<or> (err_name e = ''DatabaseError'' \<and>
          fst (findByEmail parse sb (dto_email d) tr) = Inl e \<and>
          UserHandler_createUser_catch e =
            internalServerError ''A database error occurred while creating the user.'')) \<and>
   (\<forall>e. fst (UserService_getUserById parse sb ident tr) = Inl e \<longrightarrow>
        (err_name e = ''ApplicationError'' \<and> err_code e = JNum 400)
      \<or> (err_name e = ''DatabaseError'' \<and>
          fst (findById parse sb (str_of ident) tr) = Inl e \<and>
          UserHandler_getUserById_catch e =
            internalServerError ''A database error occurred while fetching the user.'')) \<and>
   (\<forall>e. fst (findByEmail parse sb (dto_email d) tr) = Inr None \<and>
        fst (create parse sb d (snd (findByEmail parse sb (dto_email d) tr))) = Inl e \<longrightarrow>
        fst (UserService_createUser parse sb d tr) =
          Inl (ApplicationError ''Failed to create user due to a database issue.'' 500))"
proof (intro conjI allI impI)
  fix e assume "fst (UserService_createUser parse sb d tr) = Inl e"
  then show "(err_name e = ''ApplicationError'' \<and> (err_code e = JNum 409 \<or> err_code e = JNum 500))
      \<or> (err_name e = ''DatabaseError'' \<and>
          fst (findByEmail parse sb (dto_email d) tr) = Inl e \<and>
          UserHandler_createUser_catch e =
            internalServerError ''A database error occurred while creating the user.'')"
    by (auto simp add: createUser_result findByEmail_result UserHandler_createUser_catch_def
          split: option.splits sum.splits)
next
  fix e assume "fst (UserService_getUserById parse sb ident tr) = Inl e"
  then show "(err_name e = ''ApplicationError'' \<and> err_code e = JNum 400)
      \<or> (err_name e = ''DatabaseError'' \<and>
          fst (findById parse sb (str_of ident) tr) = Inl e \<and>
          UserHandler_getUserById_catch e =
            internalServerError ''A database error occurred while fetching the user.'')"
    by (auto simp add: UserService_getUserById_def findById_result
          UserHandler_getUserById_catch_def split: option.splits sum.splits if_splits)
next
  fix e
  assume "fst (findByEmail parse sb (dto_email d) tr) = Inr None \<and>
        fst (create parse sb d (snd (findByEmail parse sb (dto_email d) tr))) = Inl e"
  then show "fst (UserService_createUser parse sb d tr) =
          Inl (ApplicationError ''Failed to create user due to a database issue.'' 500)"
    by (simp add: createUser_result) (simp add: findByEmail_result)
qed

theorem storage_error_reclassified_or_special_cased_witness:
  "fst (UserService_getUserById isoParse store_down (Val (JStr ''u1'')) []) =
     Inl (DatabaseError ''Database operation failed: findById u1'' (Some fetchFailed)) \<and>
   UserHandler_getUserById_catch
     (DatabaseError ''Database operation failed: findById u1'' (Some fetchFailed)) =
     internalServerError ''A database error occurred while fetching the user.'' \<and>
   fst (UserService_createUser isoParse store_down aliceDTO []) =
     Inl (DatabaseError ''Database operation failed: findByEmail a@b.com'' (Some fetchFailed)) \<and>
   UserHandler_createUser_catch
     (DatabaseError ''Database operation failed: findByEmail a@b.com'' (Some fetchFailed)) =
     internalServerError ''A database error occurred while creating the user.'' \<and>
   fst (findByEmail isoParse store_race (dto_email aliceDTO) []) = Inr None \<and>
   fst (create isoParse store_race aliceDTO
          (snd (findByEmail isoParse store_race (dto_email aliceDTO) []))) =
     Inl (DatabaseError ''Unique constraint violation (e.g., email already exists)''
            (Some duplicateKey)) \<and>
   fst (UserService_createUser isoParse store_race aliceDTO []) =
     Inl (ApplicationError ''Failed to create user due to a database issue.'' 500)"
proof -
  have a: "fst (UserService_getUserById isoParse store_down (Val (JStr ''u1'')) []) =
     Inl (DatabaseError ''Database operation failed: findById u1'' (Some fetchFailed))"
    by (simp add: getUserById_valid findById_result store_down_def)
  have b: "fst (UserService_createUser isoParse store_down aliceDTO []) =
     Inl (DatabaseError ''Database operation failed: findByEmail a@b.com'' (Some fetchFailed))"
    by (simp add: createUser_result findByEmail_result store_down_def aliceDTO_def)
  have c: "fst (findByEmail isoParse store_race (dto_email aliceDTO) []) = Inr None"
    by (simp add: findByEmail_result store_race_def mapToDomain_JNull)
  have d: "fst (create isoParse store_race aliceDTO
          (snd (findByEmail isoParse store_race (dto_email aliceDTO) []))) =
     Inl (DatabaseError ''Unique constraint violation (e.g., email already exists)''
            (Some duplicateKey))"
    by (simp add: create_result store_race_def duplicateKey_def)
  note down = storage_error_reclassified_or_special_cased
                [where parse = isoParse and sb = store_down and d = aliceDTO and tr = "[]"
                   and ident = "Val (JStr ''u1'')"]
  note race = storage_error_reclassified_or_special_cased
                [where parse = isoParse and sb = store_race and d = aliceDTO and tr = "[]"
                   and ident = "Val (JStr ''u1'')"]
  from down [THEN conjunct2, THEN conjunct1, rule_format, OF a]
  have a': "UserHandler_getUserById_catch
     (DatabaseError ''Database operation failed: findById u1'' (Some fetchFailed)) =
     internalServerError ''A database error occurred while fetching the user.''"
    by simp
  from down [THEN conjunct1, rule_format, OF b]
  have b': "UserHandler_createUser_catch
     (DatabaseError ''Database operation failed: findByEmail a@b.com'' (Some fetchFailed)) =
     internalServerError ''A database error occurred while creating the user.''"
    by simp
  note e = race [THEN conjunct2, THEN conjunct2, rule_format, OF conjI [OF c d]]
  show ?thesis
    by (intro conjI) (rule a a' b b' c d e)+
qed

subsection \<open>The uniqueness pre-check\<close>

text \<open>
  Claim C2. When the lookup by email finds a row (the store answers the query
  with data and without an error), \<open>UserService.createUser\<close> fails with the
  \<open>ApplicationError\<close> of code 409. The only query it has sent is that lookup:
  the insert queries of the trace are those that were there before.
\<close>

theorem createUser_existing_email_conflict_without_insert:
  assumes "resp_error (sb tr (SelectEq tableName ''email'' (dto_email d))) = None"
      and "truthy (resp_data (sb tr (SelectEq tableName ''email'' (dto_email d))))"
  shows "UserService_createUser parse sb d tr =
           (Inl (ApplicationError ''User with this email already exists.'' 409),
            tr @ [SelectEq tableName ''email'' (dto_email d)]) \<and>
         err_code (ApplicationError ''User with this email already exists.'' 409) = JNum 409 \<and>
         filter isInsert (snd (UserService_createUser parse sb d tr)) = filter isInsert tr"
  using assms
  by (simp add: createUser_result findByEmail_result mapToDomain_def)

theorem createUser_existing_email_conflict_without_insert_witness:
  "resp_error (store_alice [] (SelectEq tableName ''email'' (dto_email aliceDTO))) = None \<and>
   truthy (resp_data (store_alice [] (SelectEq tableName ''email'' (dto_email aliceDTO)))) \<and>
   UserService_createUser isoParse store_alice aliceDTO [] =
     (Inl (ApplicationError ''User with this email already exists.'' 409),
      [SelectEq ''users'' ''email'' ''a@b.com''])"
proof -
  have a: "resp_error (store_alice [] (SelectEq tableName ''email'' (dto_email aliceDTO))) = None"
    by (simp add: store_alice_def aliceDTO_def)
  have b: "truthy (resp_data (store_alice [] (SelectEq tableName ''email'' (dto_email aliceDTO))))"
    by (simp add: store_alice_def aliceDTO_def aliceRow_def)
  from createUser_existing_email_conflict_without_insert
         [where sb = store_alice and tr = "[]" and d = aliceDTO and parse = isoParse, OF a b]
  have "UserService_createUser isoParse store_alice aliceDTO [] =
     (Inl (ApplicationError ''User with this email already exists.'' 409),
      [] @ [SelectEq tableName ''email'' (dto_email aliceDTO)])"
    by (rule conjunct1)
  then have "UserService_createUser isoParse store_alice aliceDTO [] =
     (Inl (ApplicationError ''User with this email already exists.'' 409),
      [SelectEq ''users'' ''email'' ''a@b.com''])"
    by (simp add: tableName_def aliceDTO_def)
  note c = this
  show ?thesis
    by (intro conjI) (rule a b c)+
qed

subsection \<open>The identifier precondition\<close>

text \<open>
  Claim C3. An \<open>id\<close> that fails the guard of \<open>UserService.getUserById\<close> (it is
  falsy, or not a string, or of length zero) makes the service fail with the
  \<open>ApplicationError\<close> of code 400, and the trace of queries is unchanged:
  \<open>findById\<close> has not been called.
\<close>

theorem getUserById_invalid_id_rejected_without_lookup:
  assumes "\<not> truthy ident \<or> typeof ident \<noteq> ''string'' \<or> str_length ident < 1"
  shows "UserService_getUserById parse sb ident tr =
           (Inl (ApplicationError ''Invalid user ID format provided.'' 400), tr) \<and>
         err_code (ApplicationError ''Invalid user ID format provided.'' 400) = JNum 400 \<and>
         snd (UserService_getUserById parse sb ident tr) = tr"
  using assms by (simp add: UserService_getUserById_def)

theorem getUserById_invalid_id_rejected_without_lookup_witness:
  "str_length (Val (JStr [])) < 1 \<and>
   UserService_getUserById isoParse store_alice (Val (JStr [])) [] =
     (Inl (ApplicationError ''Invalid user ID format provided.'' 400), []) \<and>
   typeof (Val (JNum 5)) \<noteq> ''string'' \<and>
   UserService_getUserById isoParse store_alice (Val (JNum 5)) [] =
     (Inl (ApplicationError ''Invalid user ID format provided.'' 400), []) \<and>
   truthy (Val JNull) = False \<and>
   UserService_getUserById isoParse store_alice (Val JNull) [] =
     (Inl (ApplicationError ''Invalid user ID format provided.'' 400), [])"
proof -
  have a: "str_length (Val (JStr [])) < 1"
    by simp
  have b: "typeof (Val (JNum 5)) \<noteq> ''string''"
    by simp
  have c: "truthy (Val JNull) = False"
    by simp
  from a have a': "\<not> truthy (Val (JStr [])) \<or> typeof (Val (JStr [])) \<noteq> ''string'' \<or> str_length (Val (JStr [])) < 1"
    by simp
  from b have b': "\<not> truthy (Val (JNum 5)) \<or> typeof (Val (JNum 5)) \<noteq> ''string'' \<or> str_length (Val (JNum 5)) < 1"
    by simp
  from c have c': "\<not> truthy (Val JNull) \<or> typeof (Val JNull) \<noteq> ''string'' \<or> str_length (Val JNull) < 1"
    by simp
  note d = getUserById_invalid_id_rejected_without_lookup
             [where ident = "Val (JStr [])" and parse = isoParse and sb = store_alice and tr = "[]",
              OF a', THEN conjunct1]
  note e = getUserById_invalid_id_rejected_without_lookup
             [where ident = "Val (JNum 5)" and parse = isoParse and sb = store_alice and tr = "[]",
              OF b', THEN conjunct1]
  note f = getUserById_invalid_id_rejected_without_lookup
             [where ident = "Val JNull" and parse = isoParse and sb = store_alice and tr = "[]",
              OF c', THEN conjunct1]
  show ?thesis
    by (intro conjI) (rule a b c d e f)+
qed

subsection \<open>How create classifies the store's reply\<close>

text \<open>
  Claim C4. \<open>SupabaseUserRepository.create\<close> sends one insert query. It throws
  the \<open>DatabaseError\<close> with the unique-constraint message exactly when the reply
  carries an error whose code is \<open>'23505'\<close>; for an error with any other code it
  throws the \<open>DatabaseError\<close> of \<open>handleError\<close>; for a reply without error and
  without data it throws the \<open>DatabaseError\<close> "No data returned"; and for a reply
  without error and with data it returns \<open>mapToDomain\<close> of the returned row.
\<close>

theorem create_classifies_store_reply:
  "((\<exists>e. fst (create parse sb d tr) = Inl e \<and> err_name e = ''DatabaseError'' \<and>
         err_message e = ''Unique constraint violation (e.g., email already exists)'')
      \<longleftrightarrow> (\<exists>pe. resp_error (sb tr (InsertRow tableName (dbData d))) = Some pe \<and>
                pg_code pe = ''23505'')) \<and>
   (\<forall>pe. resp_error (sb tr (InsertRow tableName (dbData d))) = Some pe \<and>
         pg_code pe \<noteq> ''23505'' \<longrightarrow>
      fst (create parse sb d tr) =
        Inl (DatabaseError
              (''Database operation failed: create user with email '' @ dto_email d)
              (Some pe))) \<and>
   (resp_error (sb tr (InsertRow tableName (dbData d))) = None \<and>
    \<not> truthy (resp_data (sb tr (InsertRow tableName (dbData d)))) \<longrightarrow>
      fst (create parse sb d tr) =
        Inl (DatabaseError ''User creation failed: No data returned from database'' None)) \<and>
   (resp_error (sb tr (InsertRow tableName (dbData d))) = None \<and>
    truthy (resp_data (sb tr (InsertRow tableName (dbData d)))) \<longrightarrow>
      (\<exists>u. mapToDomain parse (resp_data (sb tr (InsertRow tableName (dbData d)))) = Some u \<and>
           fst (create parse sb d tr) = Inr u)) \<and>
   snd (create parse sb d tr) = tr @ [InsertRow tableName (dbData d)]"
  by (auto simp add: create_result mapToDomain_def split: option.splits)

theorem create_classifies_store_reply_witness:
  "resp_error (store_alice [] (InsertRow tableName (dbData aliceDTO))) = Some duplicateKey \<and>
   pg_code duplicateKey = ''23505'' \<and>
   fst (create isoParse store_alice aliceDTO []) =
     Inl (DatabaseError ''Unique constraint violation (e.g., email already exists)''
            (Some duplicateKey)) \<and>
   resp_error (store_down [] (InsertRow tableName (dbData aliceDTO))) = Some fetchFailed \<and>
   pg_code fetchFailed \<noteq> ''23505'' \<and>
   fst (create isoParse store_down aliceDTO []) =
     Inl (DatabaseError ''Database operation failed: create user with email a@b.com''
            (Some fetchFailed)) \<and>
   resp_error (store_silent [] (InsertRow tableName (dbData aliceDTO))) = None \<and>
   \<not> truthy (resp_data (store_silent [] (InsertRow tableName (dbData aliceDTO)))) \<and>
   fst (create isoParse store_silent aliceDTO []) =
     Inl (DatabaseError ''User creation failed: No data returned from database'' None) \<and>
   resp_error (store_empty [] (InsertRow tableName (dbData aliceDTO))) = None \<and>
   truthy (resp_data (store_empty [] (InsertRow tableName (dbData aliceDTO)))) \<and>
   fst (create isoParse store_empty aliceDTO []) = Inr aliceUser"
proof -
  have a1: "resp_error (store_alice [] (InsertRow tableName (dbData aliceDTO))) = Some duplicateKey"
    by (simp add: store_alice_def)
  have a2: "pg_code duplicateKey = ''23505''"
    by (simp add: duplicateKey_def)
  have a3: "fst (create isoParse store_alice aliceDTO []) =
     Inl (DatabaseError ''Unique constraint violation (e.g., email already exists)''
            (Some duplicateKey))"
    by (simp add: create_result a1 a2)
  have b1: "resp_error (store_down [] (InsertRow tableName (dbData aliceDTO))) = Some fetchFailed"
    by (simp add: store_down_def)
  have b2: "pg_code fetchFailed \<noteq> ''23505''"
    by (simp add: fetchFailed_def)
  have c1: "resp_error (store_silent [] (InsertRow tableName (dbData aliceDTO))) = None"
    by (simp add: store_silent_def)
  have c2: "\<not> truthy (resp_data (store_silent [] (InsertRow tableName (dbData aliceDTO))))"
    by (simp add: store_silent_def)
  have d1: "resp_error (store_empty [] (InsertRow tableName (dbData aliceDTO))) = None"
    by (simp add: store_empty_def)
  have d2: "truthy (resp_data (store_empty [] (InsertRow tableName (dbData aliceDTO))))"
    by (simp add: store_empty_def aliceRow_def)
  have d3: "resp_data (store_empty [] (InsertRow tableName (dbData aliceDTO))) = aliceRow"
    by (simp add: store_empty_def)
  note down = create_classifies_store_reply
                [where parse = isoParse and sb = store_down and d = aliceDTO and tr = "[]"]
  note silent = create_classifies_store_reply
                [where parse = isoParse and sb = store_silent and d = aliceDTO and tr = "[]"]
  note empty = create_classifies_store_reply
                [where parse = isoParse and sb = store_empty and d = aliceDTO and tr = "[]"]
  from down [THEN conjunct2, THEN conjunct1, rule_format, OF conjI [OF b1 b2]]
  have b3: "fst (create isoParse store_down aliceDTO []) =
     Inl (DatabaseError ''Database operation failed: create user with email a@b.com''
            (Some fetchFailed))"
    by (simp add: aliceDTO_def)
  note c3 = silent [THEN conjunct2, THEN conjunct2, THEN conjunct1, rule_format,
                    OF conjI [OF c1 c2]]
  from empty [THEN conjunct2, THEN conjunct2, THEN conjunct2, THEN conjunct1, rule_format,
              OF conjI [OF d1 d2]]
  have d4: "fst (create isoParse store_empty aliceDTO []) = Inr aliceUser"
    by (simp add: d3 mapToDomain_aliceRow)
  show ?thesis
    by (intro conjI) (rule a1 a2 a3 b1 b2 b3 c1 c2 c3 d1 d2 d4)+
qed

subsection \<open>The handlers' catch blocks\<close>

text \<open>
  Claim C5. Every error that leaves \<open>UserService.createUser\<close> or
  \<open>UserService.getUserById\<close> is answered by the \<open>catch\<close> block of its handler,
  and no \<open>ApplicationError\<close> with code 409 leaves \<open>getUserById\<close>. The \<open>catch\<close>
  block of \<open>createUser\<close> answers an \<open>ApplicationError\<close> with code 409 or 400 with
  that status and the error's own message, and every other error with status
  500 and one of two fixed messages. The \<open>catch\<close> block of \<open>getUserById\<close> answers
  an \<open>ApplicationError\<close> with code 400 with status 400 and the error's own
  message, and every error that is not an \<open>ApplicationError\<close> with code 400 or
  409 with status 500 and one of two fixed messages. The fixed message is chosen
  by whether the error's name is \<open>'DatabaseError'\<close>; the message of the error is
  not in the 500 reply.
\<close>

theorem handler_error_status_mapping:
  "(\<forall>e. fst (UserService_createUser parse sb d tr) = Inl e \<longrightarrow>
        fst (UserHandler_createUser parse sb d tr) = UserHandler_createUser_catch e) \<and>
   (\<forall>e. fst (UserService_getUserById parse sb (Val (JStr s)) tr) = Inl e \<longrightarrow>
        fst (UserHandler_getUserById parse sb s tr) = UserHandler_getUserById_catch e \<and>
        \<not> (err_name e = ''ApplicationError'' \<and> err_code e = JNum 409)) \<and>
   (err_name err = ''ApplicationError'' \<and> err_code err = JNum 409 \<longrightarrow>
      UserHandler_createUser_catch err = conflict (err_message err) \<and>
      rep_status (UserHandler_createUser_catch err) = 409 \<and>
      getProp (rep_body (UserHandler_createUser_catch err)) ''message'' =
        JStr (err_message err)) \<and>
   (err_name err = ''ApplicationError'' \<and> err_code err = JNum 400 \<longrightarrow>
      UserHandler_createUser_catch err = badRequest (err_message err) \<and>
      rep_status (UserHandler_createUser_catch err) = 400 \<and>
      getProp (rep_body (UserHandler_createUser_catch err)) ''message'' =
        JStr (err_message err)) \<and>
   (\<not> (err_name err = ''ApplicationError'' \<and>
        (err_code err = JNum 409 \<or> err_code err = JNum 400)) \<longrightarrow>
      UserHandler_createUser_catch err =
        internalServerError
          (if err_name err = ''DatabaseError''
           then ''A database error occurred while creating the user.''
           else ''An unexpected error occurred while creating the user.'') \<and>
      rep_status (UserHandler_createUser_catch err) = 500) \<and>
   (err_name err = ''ApplicationError'' \<and> err_code err = JNum 400 \<longrightarrow>
      UserHandler_getUserById_catch err = badRequest (err_message err) \<and>
      rep_status (UserHandler_getUserById_catch err) = 400 \<and>
      getProp (rep_body (UserHandler_getUserById_catch err)) ''message'' =
        JStr (err_message err)) \<and>
   (\<not> (err_name err = ''ApplicationError'' \<and>
        (err_code err = JNum 409 \<or> err_code err = JNum 400)) \<longrightarrow>
      UserHandler_getUserById_catch err =
        internalServerError
          (if err_name err = ''DatabaseError''
           then ''A database error occurred while fetching the user.''
           else ''An unexpected error occurred while fetching the user.'') \<and>
      rep_status (UserHandler_getUserById_catch err) = 500)"
proof (intro conjI allI impI)
  fix e assume "fst (UserService_createUser parse sb d tr) = Inl e"
  then show "fst (UserHandler_createUser parse sb d tr) = UserHandler_createUser_catch e"
    by (simp add: handler_createUser_result)
next
  fix e assume "fst (UserService_getUserById parse sb (Val (JStr s)) tr) = Inl e"
  then show "fst (UserHandler_getUserById parse sb s tr) = UserHandler_getUserById_catch e"
    by (simp add: handler_getUserById_result)
next
  fix e assume "fst (UserService_getUserById parse sb (Val (JStr s)) tr) = Inl e"
  then show "\<not> (err_name e = ''ApplicationError'' \<and> err_code e = JNum 409)"
    by (auto simp add: UserService_getUserById_def findById_result
          split: option.splits sum.splits if_splits)
qed (auto simp add: UserHandler_createUser_catch_def UserHandler_getUserById_catch_def)

theorem handler_error_status_mapping_witness:
  "fst (UserService_createUser isoParse store_alice aliceDTO []) =
     Inl (ApplicationError ''User with this email already exists.'' 409) \<and>
   fst (UserHandler_createUser isoParse store_alice aliceDTO []) =
     conflict ''User with this email already exists.'' \<and>
   fst (UserService_createUser isoParse store_race aliceDTO []) =
     Inl (ApplicationError ''Failed to create user due to a database issue.'' 500) \<and>
   fst (UserHandler_createUser isoParse store_race aliceDTO []) =
     internalServerError ''An unexpected error occurred while creating the user.'' \<and>
   fst (UserService_getUserById isoParse store_alice (Val (JStr [])) []) =
     Inl (ApplicationError ''Invalid user ID format provided.'' 400) \<and>
   fst (UserHandler_getUserById isoParse store_alice [] []) =
     badRequest ''Invalid user ID format provided.'' \<and>
   fst (UserService_getUserById isoParse store_down (Val (JStr ''u1'')) []) =
     Inl (DatabaseError ''Database operation failed: findById u1'' (Some fetchFailed)) \<and>
   fst (UserHandler_getUserById isoParse store_down ''u1'' []) =
     internalServerError ''A database error occurred while fetching the user.'' \<and>
   UserHandler_createUser_catch (ApplicationError ''Invalid input.'' 400) =
     badRequest ''Invalid input.'' \<and>
   UserHandler_getUserById_catch (Error ''socket hang up'') =
     internalServerError ''An unexpected error occurred while fetching the user.''"
proof -
  have s1: "fst (UserService_createUser isoParse store_alice aliceDTO []) =
     Inl (ApplicationError ''User with this email already exists.'' 409)"
    by (simp add: createUser_result findByEmail_result store_alice_def aliceDTO_def
          mapToDomain_aliceRow)
  have s2: "fst (UserService_createUser isoParse store_race aliceDTO []) =
     Inl (ApplicationError ''Failed to create user due to a database issue.'' 500)"
    by (simp add: createUser_result findByEmail_result create_result store_race_def
          duplicateKey_def mapToDomain_JNull)
  have s3: "fst (UserService_getUserById isoParse store_alice (Val (JStr [])) []) =
     Inl (ApplicationError ''Invalid user ID format provided.'' 400)"
    by (simp add: UserService_getUserById_def)
  have s4: "fst (UserService_getUserById isoParse store_down (Val (JStr ''u1'')) []) =
     Inl (DatabaseError ''Database operation failed: findById u1'' (Some fetchFailed))"
    by (simp add: getUserById_valid findById_result store_down_def)
  note alice = handler_error_status_mapping
                 [where parse = isoParse and sb = store_alice and d = aliceDTO and tr = "[]"
                    and s = "[]"
                    and err = "ApplicationError ''User with this email already exists.'' 409"]
  note race = handler_error_status_mapping
                 [where parse = isoParse and sb = store_race and d = aliceDTO and tr = "[]"
                    and s = "[]"
                    and err = "ApplicationError ''Failed to create user due to a database issue.'' 500"]
  note empty_id = handler_error_status_mapping
                 [where parse = isoParse and sb = store_alice and d = aliceDTO and tr = "[]"
                    and s = "[]"
                    and err = "ApplicationError ''Invalid user ID format provided.'' 400"]
  note down = handler_error_status_mapping
                 [where parse = isoParse and sb = store_down and d = aliceDTO and tr = "[]"
                    and s = "''u1''"
                    and err = "DatabaseError ''Database operation failed: findById u1'' (Some fetchFailed)"]
  note bad = handler_error_status_mapping
                 [where parse = isoParse and sb = store_down and d = aliceDTO and tr = "[]"
                    and s = "''u1''" and err = "ApplicationError ''Invalid input.'' 400"]
  note other = handler_error_status_mapping
                 [where parse = isoParse and sb = store_down and d = aliceDTO and tr = "[]"
                    and s = "''u1''" and err = "Error ''socket hang up''"]
  from alice [THEN conjunct2, THEN conjunct2, THEN conjunct1]
  have c1: "UserHandler_createUser_catch
              (ApplicationError ''User with this email already exists.'' 409) =
            conflict ''User with this email already exists.''"
    by simp
  from race [THEN conjunct2, THEN conjunct2, THEN conjunct2, THEN conjunct2, THEN conjunct1]
  have c2: "UserHandler_createUser_catch
              (ApplicationError ''Failed to create user due to a database issue.'' 500) =
            internalServerError ''An unexpected error occurred while creating the user.''"
    by simp
  from empty_id [THEN conjunct2, THEN conjunct2, THEN conjunct2, THEN conjunct2,
                 THEN conjunct2, THEN conjunct1]
  have c3: "UserHandler_getUserById_catch
              (ApplicationError ''Invalid user ID format provided.'' 400) =
            badRequest ''Invalid user ID format provided.''"
    by simp
  from down [THEN conjunct2, THEN conjunct2, THEN conjunct2, THEN conjunct2,
             THEN conjunct2, THEN conjunct2]
  have c4: "UserHandler_getUserById_catch
              (DatabaseError ''Database operation failed: findById u1'' (Some fetchFailed)) =
            internalServerError ''A database error occurred while fetching the user.''"
    by simp
  from bad [THEN conjunct2, THEN conjunct2, THEN conjunct2, THEN conjunct1]
  have c5: "UserHandler_createUser_catch (ApplicationError ''Invalid input.'' 400) =
            badRequest ''Invalid input.''"
    by simp
  from other [THEN conjunct2, THEN conjunct2, THEN conjunct2, THEN conjunct2,
              THEN conjunct2, THEN conjunct2]
  have c6: "UserHandler_getUserById_catch (Error ''socket hang up'') =
            internalServerError ''An unexpected error occurred while fetching the user.''"
    by (simp add: Error_def)
  have h1: "fst (UserHandler_createUser isoParse store_alice aliceDTO []) =
     conflict ''User with this email already exists.''"
    by (simp only: alice [THEN conjunct1, rule_format, OF s1] c1)
  have h2: "fst (UserHandler_createUser isoParse store_race aliceDTO []) =
     internalServerError ''An unexpected error occurred while creating the user.''"
    by (simp only: race [THEN conjunct1, rule_format, OF s2] c2)
  have h3: "fst (UserHandler_getUserById isoParse store_alice [] []) =
     badRequest ''Invalid user ID format provided.''"
    by (simp only: empty_id [THEN conjunct2, THEN conjunct1, rule_format, OF s3, THEN conjunct1] c3)
  have h4: "fst (UserHandler_getUserById isoParse store_down ''u1'' []) =
     internalServerError ''A database error occurred while fetching the user.''"
    by (simp only: down [THEN conjunct2, THEN conjunct1, rule_format, OF s4, THEN conjunct1] c4)
  show ?thesis
    by (intro conjI) (rule s1 s2 s3 s4 h1 h2 h3 h4 c5 c6)+
qed

subsection \<open>Successful replies\<close>

text \<open>
  Claim C6. When the service returns an entity, \<open>createUser\<close> sends status 201
  and \<open>getUserById\<close> status 200, each with \<open>mapUserToResponse\<close> of the entity as
  the body. That body has exactly the properties \<open>id\<close>, \<open>email\<close> and \<open>created_at\<close>,
  taken from the entity, and no \<open>password\<close>, although every entity that
  \<open>mapToDomain\<close> builds has a \<open>password\<close> property, copied from the row.
\<close>

theorem handler_success_body_without_password:
  "(fst (UserService_createUser parse sb d tr) = Inr u \<longrightarrow>
      fst (UserHandler_createUser parse sb d tr) = send 201 (mapUserToResponse parse u) \<and>
      rep_status (fst (UserHandler_createUser parse sb d tr)) = 201) \<and>
   (fst (UserService_getUserById parse sb (Val (JStr s)) tr) = Inr (Some u) \<longrightarrow>
      fst (UserHandler_getUserById parse sb s tr) = send 200 (mapUserToResponse parse u) \<and>
      rep_status (fst (UserHandler_getUserById parse sb s tr)) = 200) \<and>
   ownKeys (mapUserToResponse parse u) = [''id'', ''email'', ''created_at''] \<and>
   ''password'' \<notin> set (ownKeys (mapUserToResponse parse u)) \<and>
   getProp (mapUserToResponse parse u) ''password'' = JUndefined \<and>
   getProp (mapUserToResponse parse u) ''id'' = getProp u ''id'' \<and>
   getProp (mapUserToResponse parse u) ''email'' = getProp u ''email'' \<and>
   getProp (mapUserToResponse parse u) ''created_at'' = newDate parse (getProp u ''created_at'') \<and>
   (\<forall>row. mapToDomain parse row = Some u \<longrightarrow>
      ''password'' \<in> set (ownKeys u) \<and> getProp u ''password'' = getProp row ''password'')"
  by (auto simp add: handler_createUser_result handler_getUserById_result
        mapUserToResponse_def mapToDomain_def split: if_splits)

theorem handler_success_body_without_password_witness:
  "fst (UserService_createUser isoParse store_empty aliceDTO []) = Inr aliceUser \<and>
   fst (UserHandler_createUser isoParse store_empty aliceDTO []) =
     send 201 (Obj [(''id'', JStr ''u1''), (''email'', JStr ''a@b.com''),
                    (''created_at'', JDate (Some 0))]) \<and>
   fst (UserService_getUserById isoParse store_alice (Val (JStr ''u1'')) []) = Inr (Some aliceUser) \<and>
   fst (UserHandler_getUserById isoParse store_alice ''u1'' []) =
     send 200 (Obj [(''id'', JStr ''u1''), (''email'', JStr ''a@b.com''),
                    (''created_at'', JDate (Some 0))]) \<and>
   mapToDomain isoParse aliceRow = Some aliceUser \<and>
   getProp aliceUser ''password'' = JStr ''secret12''"
proof -
  have a: "fst (UserService_createUser isoParse store_empty aliceDTO []) = Inr aliceUser"
    by (simp add: createUser_result findByEmail_result create_result store_empty_def
          mapToDomain_JNull mapToDomain_aliceRow)
  have b: "fst (UserService_getUserById isoParse store_alice (Val (JStr ''u1'')) []) =
             Inr (Some aliceUser)"
    by (simp add: getUserById_valid findById_result store_alice_def mapToDomain_aliceRow)
  have m: "mapUserToResponse isoParse aliceUser =
             Obj [(''id'', JStr ''u1''), (''email'', JStr ''a@b.com''),
                  (''created_at'', JDate (Some 0))]"
    by (simp add: mapUserToResponse_def aliceUser_def)
  note created = handler_success_body_without_password
                   [where parse = isoParse and sb = store_empty and d = aliceDTO and tr = "[]"
                      and u = aliceUser and s = "''u1''"]
  note read = handler_success_body_without_password
                   [where parse = isoParse and sb = store_alice and d = aliceDTO and tr = "[]"
                      and u = aliceUser and s = "''u1''"]
  from created [THEN conjunct1, rule_format, OF a, THEN conjunct1]
  have c: "fst (UserHandler_createUser isoParse store_empty aliceDTO []) =
     send 201 (Obj [(''id'', JStr ''u1''), (''email'', JStr ''a@b.com''),
                    (''created_at'', JDate (Some 0))])"
    by (simp only: m)
  from read [THEN conjunct2, THEN conjunct1, rule_format, OF b, THEN conjunct1]
  have d: "fst (UserHandler_getUserById isoParse store_alice ''u1'' []) =
     send 200 (Obj [(''id'', JStr ''u1''), (''email'', JStr ''a@b.com''),
                    (''created_at'', JDate (Some 0))])"
    by (simp only: m)
  have p: "getProp aliceUser ''password'' = JStr ''secret12''"
    by (simp add: aliceUser_def)
  show ?thesis
    by (intro conjI) (rule a b c d p mapToDomain_aliceRow)+
qed

subsection \<open>Absence\<close>

text \<open>
  Claim C7. For a non-empty string \<open>id\<close> that the store does not hold (the
  lookup is answered without error and without data), \<open>UserService.getUserById\<close>
  returns \<open>null\<close> and no error, and \<open>UserHandler.getUserById\<close> answers 404 with a
  message that names the id.
\<close>

theorem getUserById_absent_is_not_found:
  assumes "s \<noteq> []"
      and "resp_error (sb tr (SelectEq tableName ''id'' s)) = None"
      and "\<not> truthy (resp_data (sb tr (SelectEq tableName ''id'' s)))"
  shows "UserService_getUserById parse sb (Val (JStr s)) tr =
           (Inr None, tr @ [SelectEq tableName ''id'' s]) \<and>
         fst (UserHandler_getUserById parse sb s tr) =
           notFound (''User with ID '' @ s @ '' not found.'') \<and>
         rep_status (fst (UserHandler_getUserById parse sb s tr)) = 404 \<and>
         getProp (rep_body (fst (UserHandler_getUserById parse sb s tr))) ''message'' =
           JStr (''User with ID '' @ s @ '' not found.'')"
  using assms
  by (simp add: handler_getUserById_result getUserById_valid findById_result mapToDomain_def)

theorem getUserById_absent_is_not_found_witness:
  "''zzz'' \<noteq> [] \<and>
   resp_error (store_alice [] (SelectEq tableName ''id'' ''zzz'')) = None \<and>
   \<not> truthy (resp_data (store_alice [] (SelectEq tableName ''id'' ''zzz''))) \<and>
   UserService_getUserById isoParse store_alice (Val (JStr ''zzz'')) [] =
     (Inr None, [] @ [SelectEq tableName ''id'' ''zzz'']) \<and>
   fst (UserHandler_getUserById isoParse store_alice ''zzz'' []) =
     notFound (''User with ID '' @ ''zzz'' @ '' not found.'') \<and>
   rep_status (fst (UserHandler_getUserById isoParse store_alice ''zzz'' [])) = 404"
proof -
  have a: "''zzz'' \<noteq> []"
    by simp
  have b: "resp_error (store_alice [] (SelectEq tableName ''id'' ''zzz'')) = None"
    by (simp add: store_alice_def)
  have c: "\<not> truthy (resp_data (store_alice [] (SelectEq tableName ''id'' ''zzz'')))"
    by (simp add: store_alice_def)
  note t = getUserById_absent_is_not_found
             [where s = "''zzz''" and sb = store_alice and tr = "[]" and parse = isoParse,
              OF a b c]
  note d = t [THEN conjunct1]
  note e = t [THEN conjunct2, THEN conjunct1]
  note f = t [THEN conjunct2, THEN conjunct2, THEN conjunct1]
  show ?thesis
    by (intro conjI) (rule a b c d e f)+
qed

subsection \<open>Rows that lack a field\<close>

text \<open>
  Claim C8, as stated, fails: \<open>mapToDomain\<close> has no failing path. A row that has
  an \<open>id\<close> and nothing else is mapped to an entity whose \<open>email\<close>, \<open>username\<close> and
  \<open>password\<close> are \<open>undefined\<close> and whose timestamps are the Invalid Date, and
  \<open>create\<close> returns that entity instead of throwing.
\<close>

theorem mapToDomain_accepts_row_without_fields:
  "mapToDomain isoParse (Obj [(''id'', JStr ''u1'')]) =
     Some (Obj [(''id'', JStr ''u1''), (''email'', JUndefined), (''username'', JUndefined),
                (''password'', JUndefined), (''updated_at'', JDate None),
                (''created_at'', JDate None)]) \<and>
   fst (create isoParse store_malformed aliceDTO []) =
     Inr (Obj [(''id'', JStr ''u1''), (''email'', JUndefined), (''username'', JUndefined),
                 (''password'', JUndefined), (''updated_at'', JDate None),
                 (''created_at'', JDate None)])"
  by (simp add: create_result store_malformed_def mapToDomain_def)

text \<open>
  Claim C8, amended. \<open>mapToDomain\<close> is total and never fails: it returns \<open>null\<close>
  for a falsy row and, for every other row, an entity with the six properties
  \<open>id\<close>, \<open>email\<close>, \<open>username\<close>, \<open>password\<close>, \<open>updated_at\<close>, \<open>created_at\<close>. The first
  four are read from the row as they are (\<open>undefined\<close> when the row lacks them),
  the two timestamps are \<open>new Date\<close> of what the row holds.
\<close>

theorem mapToDomain_total_copies_fields:
  "(\<not> truthy row \<longrightarrow> mapToDomain parse row = None) \<and>
   (truthy row \<longrightarrow>
      (\<exists>u. mapToDomain parse row = Some u \<and>
           ownKeys u = [''id'', ''email'', ''username'', ''password'', ''updated_at'', ''created_at''] \<and>
           getProp u ''id'' = getProp row ''id'' \<and>
           getProp u ''email'' = getProp row ''email'' \<and>
           getProp u ''username'' = getProp row ''username'' \<and>
           getProp u ''password'' = getProp row ''password'' \<and>
           getProp u ''updated_at'' = newDate parse (getProp row ''updated_at'') \<and>
           getProp u ''created_at'' = newDate parse (getProp row ''created_at'')))"
  by (simp add: mapToDomain_def)

theorem mapToDomain_total_copies_fields_witness:
  "\<not> truthy (Val JNull) \<and> mapToDomain isoParse (Val JNull) = None \<and>
   truthy aliceRow \<and>
   (\<exists>u. mapToDomain isoParse aliceRow = Some u \<and>
        ownKeys u = [''id'', ''email'', ''username'', ''password'', ''updated_at'', ''created_at''] \<and>
        getProp u ''id'' = getProp aliceRow ''id'' \<and>
        getProp u ''email'' = getProp aliceRow ''email'' \<and>
        getProp u ''username'' = getProp aliceRow ''username'' \<and>
        getProp u ''password'' = getProp aliceRow ''password'' \<and>
        getProp u ''updated_at'' = newDate isoParse (getProp aliceRow ''updated_at'') \<and>
        getProp u ''created_at'' = newDate isoParse (getProp aliceRow ''created_at''))"
proof -
  have a: "\<not> truthy (Val JNull)"
    by simp
  have b: "truthy aliceRow"
    by (simp add: aliceRow_def)
  note c = mapToDomain_total_copies_fields
             [where row = "Val JNull" and parse = isoParse, THEN conjunct1, rule_format, OF a]
  note d = mapToDomain_total_copies_fields
             [where row = aliceRow and parse = isoParse, THEN conjunct2, rule_format, OF b]
  show ?thesis
    by (intro conjI) (rule a b c d)+
qed

subsection \<open>The health route\<close>

text \<open>
  The object the handler gives to \<open>send\<close>: on failure it has a fourth property,
  \<open>error\<close>, with the message of the caught exception.
\<close>

lemma health_sent_object:
  "fst (health sb now tr) =
     (case resp_error (sb tr (HeadCount ''users'')) of
        None \<Rightarrow> send 200 (Obj [(''status'', JStr ''ok''), (''timestamp'', JStr now)])
      | Some pe \<Rightarrow>
          send 503 (Obj [(''status'', JStr ''error''),
                         (''message'', JStr ''Service unavailable''),
                         (''error'', JStr (''Supabase reachability check failed: '' @
                                            pg_message pe)),
                         (''timestamp'', JStr now)]))"
  by (simp add: health_def health_try_def health_catch_def runQuery_def Error_def
        split: option.splits)

lemma health_trace: "snd (health sb now tr) = tr @ [HeadCount ''users'']"
  by (simp add: health_def health_try_def runQuery_def split: option.splits)

text \<open>
  Claim C9. \<open>GET /health\<close> sends one query to the store. When the reply has no
  error the response is 200 with the body \<open>{status: "ok", timestamp}\<close>. Otherwise
  the response is 503 with a body of exactly the three properties \<open>status\<close>,
  \<open>message\<close> and \<open>timestamp\<close>, where \<open>status\<close> is "error" and \<open>message\<close> is the
  fixed text "Service unavailable": the \<open>error\<close> property of the object the
  handler sends is not in the route's 503 schema and is not written. The body
  is the same whatever error the store reported.
\<close>

theorem health_response_by_store_reachability:
  "(resp_error (sb tr (HeadCount ''users'')) = None \<longrightarrow>
      fst (health_route sb now tr) =
        send 200 (Obj [(''status'', JStr ''ok''), (''timestamp'', JStr now)])) \<and>
   (resp_error (sb tr (HeadCount ''users'')) \<noteq> None \<longrightarrow>
      fst (health_route sb now tr) =
        send 503 (Obj [(''status'', JStr ''error''),
                       (''message'', JStr ''Service unavailable''),
                       (''timestamp'', JStr now)]) \<and>
      ownKeys (rep_body (fst (health_route sb now tr))) =
        [''status'', ''message'', ''timestamp''] \<and>
      getProp (rep_body (fst (health_route sb now tr))) ''error'' = JUndefined) \<and>
   snd (health_route sb now tr) = tr @ [HeadCount ''users'']"
proof -
  have r: "health_route sb now tr =
             (case healthResponseSchema (rep_status (fst (health sb now tr))) of
                Some props \<Rightarrow>
                  ((fst (health sb now tr))
                     \<lparr>rep_body := serializeBySchema props (rep_body (fst (health sb now tr)))\<rparr>,
                   snd (health sb now tr))
              | None \<Rightarrow> (fst (health sb now tr), snd (health sb now tr)))"
    by (simp add: health_route_def split: prod.splits option.splits)
  show ?thesis
  proof (cases "resp_error (sb tr (HeadCount ''users''))")
    case None
    then show ?thesis
      by (simp add: r health_sent_object health_trace healthResponseSchema_def
            serializeBySchema_def send_def)
  next
    case (Some pe)
    then show ?thesis
      by (simp add: r health_sent_object health_trace healthResponseSchema_def
            serializeBySchema_def send_def)
  qed
qed

theorem health_response_by_store_reachability_witness:
  "resp_error (store_empty [] (HeadCount ''users'')) = None \<and>
   fst (health_route store_empty ''2026-01-01T00:00:00.000Z'' []) =
     send 200 (Obj [(''status'', JStr ''ok''),
                    (''timestamp'', JStr ''2026-01-01T00:00:00.000Z'')]) \<and>
   resp_error (store_down [] (HeadCount ''users'')) \<noteq> None \<and>
   fst (health_route store_down ''2026-01-01T00:00:00.000Z'' []) =
     send 503 (Obj [(''status'', JStr ''error''),
                    (''message'', JStr ''Service unavailable''),
                    (''timestamp'', JStr ''2026-01-01T00:00:00.000Z'')]) \<and>
   fst (health store_down ''2026-01-01T00:00:00.000Z'' []) =
     send 503 (Obj [(''status'', JStr ''error''),
                    (''message'', JStr ''Service unavailable''),
                    (''error'', JStr ''Supabase reachability check failed: fetch failed''),
                    (''timestamp'', JStr ''2026-01-01T00:00:00.000Z'')])"
proof -
  have a: "resp_error (store_empty [] (HeadCount ''users'')) = None"
    by (simp add: store_empty_def)
  have b: "resp_error (store_down [] (HeadCount ''users'')) \<noteq> None"
    by (simp add: store_down_def)
  note c = health_response_by_store_reachability
             [where sb = store_empty and tr = "[]" and now = "''2026-01-01T00:00:00.000Z''",
              THEN conjunct1, rule_format, OF a]
  note d = health_response_by_store_reachability
             [where sb = store_down and tr = "[]" and now = "''2026-01-01T00:00:00.000Z''",
              THEN conjunct2, THEN conjunct1, rule_format, OF b, THEN conjunct1]
  have e: "fst (health store_down ''2026-01-01T00:00:00.000Z'' []) =
     send 503 (Obj [(''status'', JStr ''error''),
                    (''message'', JStr ''Service unavailable''),
                    (''error'', JStr ''Supabase reachability check failed: fetch failed''),
                    (''timestamp'', JStr ''2026-01-01T00:00:00.000Z'')])"
    by (simp add: health_sent_object store_down_def fetchFailed_def)
  show ?thesis
    by (intro conjI) (rule a b c d e)+
qed

subsection \<open>Identifiers that are not UUIDs\<close>

text \<open>
  Claim C10. For every non-empty string \<open>id\<close>, whatever its form,
  \<open>UserService.getUserById\<close> is the repository's \<open>findById\<close> on that string: the
  lookup query is sent, and an error, if there is one, is the \<open>DatabaseError\<close> of
  the lookup and not the 400 of the format check. The handler passes the path
  segment to the service as it is, so its reply is never a 400 for such an id.
\<close>

theorem getUserById_nonempty_id_reaches_lookup:
  assumes "s \<noteq> []"
  shows "UserService_getUserById parse sb (Val (JStr s)) tr = findById parse sb s tr \<and>
         snd (UserService_getUserById parse sb (Val (JStr s)) tr) = tr @ [SelectEq tableName ''id'' s] \<and>
         (\<forall>e. fst (UserService_getUserById parse sb (Val (JStr s)) tr) = Inl e \<longrightarrow>
              err_name e = ''DatabaseError'') \<and>
         snd (UserHandler_getUserById parse sb s tr) = tr @ [SelectEq tableName ''id'' s] \<and>
         rep_status (fst (UserHandler_getUserById parse sb s tr)) \<noteq> 400"
  using assms
  by (auto simp add: handler_getUserById_result getUserById_valid findById_result
        UserHandler_getUserById_catch_def split: option.splits sum.splits)

theorem getUserById_nonempty_id_reaches_lookup_witness:
  "''not-a-uuid'' \<noteq> [] \<and>
   UserService_getUserById isoParse store_alice (Val (JStr ''not-a-uuid'')) [] =
     (Inr None, [SelectEq ''users'' ''id'' ''not-a-uuid'']) \<and>
   rep_status (fst (UserHandler_getUserById isoParse store_alice ''not-a-uuid'' [])) \<noteq> 400 \<and>
   fst (UserService_getUserById isoParse store_down (Val (JStr ''not-a-uuid'')) []) =
     Inl (DatabaseError ''Database operation failed: findById not-a-uuid'' (Some fetchFailed))"
proof -
  have h: "''not-a-uuid'' \<noteq> []"
    by simp
  have a: "findById isoParse store_alice ''not-a-uuid'' [] =
             (Inr None, [SelectEq ''users'' ''id'' ''not-a-uuid''])"
    by (simp add: findById_result store_alice_def mapToDomain_JNull tableName_def)
  have b: "findById isoParse store_down ''not-a-uuid'' [] =
             (Inl (DatabaseError ''Database operation failed: findById not-a-uuid''
                     (Some fetchFailed)),
              [SelectEq ''users'' ''id'' ''not-a-uuid''])"
    by (simp add: findById_result store_down_def tableName_def)
  note t1 = getUserById_nonempty_id_reaches_lookup
              [where s = "''not-a-uuid''" and parse = isoParse and sb = store_alice
                 and tr = "[]", OF h]
  note t2 = getUserById_nonempty_id_reaches_lookup
              [where s = "''not-a-uuid''" and parse = isoParse and sb = store_down
                 and tr = "[]", OF h]
  have c: "UserService_getUserById isoParse store_alice (Val (JStr ''not-a-uuid'')) [] =
             (Inr None, [SelectEq ''users'' ''id'' ''not-a-uuid''])"
    by (simp only: t1 [THEN conjunct1] a)
  note d = t1 [THEN conjunct2, THEN conjunct2, THEN conjunct2, THEN conjunct2]
  have e: "fst (UserService_getUserById isoParse store_down (Val (JStr ''not-a-uuid'')) []) =
     Inl (DatabaseError ''Database operation failed: findById not-a-uuid'' (Some fetchFailed))"
    by (simp only: t2 [THEN conjunct1] b fst_conv)
  show ?thesis
    by (intro conjI) (rule h c d e)+
qed

end
